theory Spec2Isabelle
  imports Main
begin

section \<open>fiber\_limiter: a rate-limit gate in front of a request pipeline\<close>

text \<open>
  The package has one exported function, \<^verbatim>\<open>New\<close> (main.go), which resolves the
  defaults of a \<^verbatim>\<open>Config\<close>, builds a limiter and a limit, and returns the
  per-request closure. The embedding follows main.go statement by statement.
  Go's \<^verbatim>\<open>int\<close>, \<^verbatim>\<open>int64\<close> and \<^verbatim>\<open>time.Duration\<close> are modelled as
  \<^typ>\<open>int\<close>: the code compares them with zero, converts \<^verbatim>\<open>int\<close> to
  \<^verbatim>\<open>int64\<close> and prints them. Its only arithmetic is
  \<^verbatim>\<open>time.Now().Add(d).Unix()\<close>; a \<^verbatim>\<open>time.Time\<close> keeps seconds and nanoseconds
  apart, in 64 bits of seconds, so adding a duration to the time of the clock does
  not wrap. A point in time is the number of nanoseconds since the Unix epoch, and
  a duration is a number of nanoseconds.
\<close>

subsection \<open>Constants (main.go, lines 14--18, and the Go standard library)\<close>

definition SimpleAlgorithm :: string where
  "SimpleAlgorithm = ''simple''"

definition GCRAAlgorithm :: string where
  "GCRAAlgorithm = ''gcra''"

definition DefaultKeyPrefix :: string where
  "DefaultKeyPrefix = ''fiber_limiter''"

definition Second :: int where
  "Second = 1000000000"

definition Minute :: int where
  "Minute = 60 * Second"

definition StatusTooManyRequests :: int where
  "StatusTooManyRequests = 429"

subsection \<open>The request context\<close>

text \<open>
  Of \<^verbatim>\<open>*fiber.Ctx\<close> the code reads the remote address (\<^verbatim>\<open>c.IP()\<close>) and writes the
  response status, the response body and response headers.
\<close>

record Ctx =
  IP :: string
  resp_status :: int
  resp_body :: string
  resp_headers :: "string \<rightharpoonup> string"

definition Status :: "int \<Rightarrow> Ctx \<Rightarrow> Ctx" where
  "Status code c = c\<lparr>resp_status := code\<rparr>"

definition SendString :: "string \<Rightarrow> Ctx \<Rightarrow> Ctx" where
  "SendString s c = c\<lparr>resp_body := s\<rparr>"

subsection \<open>Config (main.go, lines 21--66)\<close>

text \<open>
  A nil pointer or nil func is \<open>None\<close>. The type \<open>'cl\<close> is the Redis client
  behind the \<^verbatim>\<open>Rediser\<close> pointer. The field \<^verbatim>\<open>Max\<close> is written \<open>Max'\<close>, since
  \<open>Max\<close> is a constant of HOL.
\<close>

record 'cl Config =
  Rediser :: "'cl option"
  Max' :: int
  Burst :: int
  StatusCode :: int
  Message :: string
  Algorithm :: string
  Prefix :: string
  Period :: int
  Filter :: "(Ctx \<Rightarrow> bool) option"
  Key :: "(Ctx \<Rightarrow> string) option"
  Handler :: "(Ctx \<Rightarrow> Ctx) option"

subsection \<open>The limiter library, at its interface\<close>

text \<open>
  \<^verbatim>\<open>go_limiter\<close> is an imported package. The code uses its types
  \<^verbatim>\<open>Limit\<close>, \<^verbatim>\<open>Limiter\<close> and \<^verbatim>\<open>Result\<close> and its method \<^verbatim>\<open>Allow\<close>.
  The fields are the ones main.go names.
\<close>

record Limit =
  Limit_Period :: int
  Limit_Algorithm :: string
  Limit_Rate :: int
  Limit_Burst :: int

record 'cl Limiter =
  rdb :: 'cl
  Limiter_Prefix :: string

record Result =
  Allowed :: bool
  Remaining :: int
  RetryAfter :: int
  ResetAfter :: int

text \<open>
  \<^verbatim>\<open>limiter.Allow(key, limit)\<close> talks to Redis. It is a parameter of the model:
  a function of the limiter, the key, the limit, the current time and the contents
  \<open>'st\<close> of the store, which returns an error message or a result, and the new
  contents of the store. The limit is passed as a pointer; the library is taken to
  read it only.
\<close>

type_synonym ('cl, 'st) allow_fn =
  "'cl Limiter \<Rightarrow> string \<Rightarrow> Limit \<Rightarrow> int \<Rightarrow> 'st \<Rightarrow> (string + Result) \<times> 'st"

subsection \<open>The world a request runs in\<close>

text \<open>
  A request handler changes the context and the store, reads the clock, and calls
  its collaborators. The calls that leave the closure are logged in the order they
  are made: the call of \<^verbatim>\<open>limiter.Allow\<close> with the prefix of the limiter, the key
  and the limit it was given, the call of \<^verbatim>\<open>config.Handler\<close>, and
  \<^verbatim>\<open>c.Next()\<close>, which hands the request to the next handler of the chain.
  \<^verbatim>\<open>c.Set\<close> stores a response header under the name as main.go spells it.
\<close>

datatype call = CallAllow string string Limit | CallHandler | CallNext

record 'st World =
  ctx :: Ctx
  store :: 'st
  clock :: int
  calls :: "call list"

text \<open>A panic of the Go program is an error value of the model.\<close>

datatype panic = Panic string | NilFuncCall

definition Next :: "'st World \<Rightarrow> 'st World" where
  "Next w = w\<lparr>calls := calls w @ [CallNext]\<rparr>"

definition Set :: "string \<Rightarrow> string \<Rightarrow> 'st World \<Rightarrow> 'st World" where
  "Set k v w = w\<lparr>ctx := (ctx w)\<lparr>resp_headers := (resp_headers (ctx w))(k \<mapsto> v)\<rparr>\<rparr>"

definition callHandler :: "(Ctx \<Rightarrow> Ctx) \<Rightarrow> 'st World \<Rightarrow> 'st World" where
  "callHandler h w = w\<lparr>ctx := h (ctx w), calls := calls w @ [CallHandler]\<rparr>"

definition Allow ::
  "('cl, 'st) allow_fn \<Rightarrow> 'cl Limiter \<Rightarrow> string \<Rightarrow> Limit \<Rightarrow> 'st World
     \<Rightarrow> (string + Result) \<times> 'st World" where
  "Allow allow limiter k limit w =
     (case allow limiter k limit (clock w) (store w) of
        (r, st) \<Rightarrow>
          (r, w\<lparr>store := st,
                calls := calls w @ [CallAllow (Limiter_Prefix limiter) k limit]\<rparr>))"

subsection \<open>strconv and time\<close>

text \<open>
  \<^verbatim>\<open>strconv.FormatInt(i, 10)\<close> and \<^verbatim>\<open>strconv.Itoa(i)\<close> print an integer in
  decimal, with a leading minus sign when it is negative.
  \<^verbatim>\<open>t.Add(d)\<close> adds a duration to a time and \<^verbatim>\<open>t.Unix()\<close> is the number of
  whole seconds since the epoch, rounded down. \<open>digit\<close> is only applied to
  numbers below ten.
\<close>

definition digit :: "nat \<Rightarrow> char" where
  "digit n = ''0123456789'' ! n"

function digits :: "nat \<Rightarrow> string" where
  "digits n = (if n < 10 then [digit n] else digits (n div 10) @ [digit (n mod 10)])"
  by pat_completeness auto
termination
  by (relation "measure id") auto

declare digits.simps [simp del]

definition FormatInt :: "int \<Rightarrow> string" where
  "FormatInt i = (if i < 0 then CHR ''-'' # digits (nat (- i)) else digits (nat i))"

definition Itoa :: "int \<Rightarrow> string" where
  "Itoa i = FormatInt i"

definition Add :: "int \<Rightarrow> int \<Rightarrow> int" where
  "Add t d = t + d"

definition Unix :: "int \<Rightarrow> int" where
  "Unix t = t div Second"

subsection \<open>New: the defaults (main.go, lines 74--112)\<close>

text \<open>
  Each \<^verbatim>\<open>if\<close> statement of the source is one function on the local variable
  \<^verbatim>\<open>config\<close>, and \<open>applyDefaults\<close> runs them in the order of the source, with
  one exception. The default
  \<^verbatim>\<open>Handler\<close> of line 75 is a closure over the variable \<^verbatim>\<open>config\<close>: it reads
  \<^verbatim>\<open>config.StatusCode\<close> and \<^verbatim>\<open>config.Message\<close> when it runs, which is after
  lines 106--112 have set them. So the model builds it last, from the final values.
  No other statement reads \<^verbatim>\<open>config.Handler\<close>.
\<close>

definition defaultKey :: "'cl Config \<Rightarrow> 'cl Config" where
  "defaultKey config =
     (if Key config = None then config\<lparr>Key := Some (\<lambda>c. IP c)\<rparr> else config)"

definition defaultAlgorithm :: "'cl Config \<Rightarrow> 'cl Config" where
  "defaultAlgorithm config =
     (if Algorithm config = [] then config\<lparr>Algorithm := SimpleAlgorithm\<rparr> else config)"

definition defaultPeriod :: "'cl Config \<Rightarrow> 'cl Config" where
  "defaultPeriod config =
     (if Period config = 0 then config\<lparr>Period := Minute\<rparr> else config)"

definition defaultMax :: "'cl Config \<Rightarrow> 'cl Config" where
  "defaultMax config =
     (if Max' config = 0 then config\<lparr>Max' := 10\<rparr> else config)"

definition defaultBurst :: "'cl Config \<Rightarrow> 'cl Config" where
  "defaultBurst config =
     (if Burst config = 0 then config\<lparr>Burst := 10\<rparr> else config)"

definition defaultPrefix :: "'cl Config \<Rightarrow> 'cl Config" where
  "defaultPrefix config =
     (if Prefix config = [] then config\<lparr>Prefix := DefaultKeyPrefix\<rparr> else config)"

definition defaultMessage :: "'cl Config \<Rightarrow> 'cl Config" where
  "defaultMessage config =
     (if Message config = []
      then config\<lparr>Message := ''Too many requests, please try again later.''\<rparr>
      else config)"

definition defaultStatusCode :: "'cl Config \<Rightarrow> 'cl Config" where
  "defaultStatusCode config =
     (if StatusCode config = 0 then config\<lparr>StatusCode := StatusTooManyRequests\<rparr>
      else config)"

definition defaultHandler :: "'cl Config \<Rightarrow> 'cl Config" where
  "defaultHandler config =
     (if Handler config = None
      then config\<lparr>Handler :=
             Some (\<lambda>c. SendString (Message config) (Status (StatusCode config) c))\<rparr>
      else config)"

definition applyDefaults :: "'cl Config \<Rightarrow> 'cl Config" where
  "applyDefaults config =
     defaultHandler (defaultStatusCode (defaultMessage (defaultPrefix (defaultBurst
       (defaultMax (defaultPeriod (defaultAlgorithm (defaultKey config))))))))"

subsection \<open>New: the closure (main.go, lines 125--155)\<close>

text \<open>
  Line 127 asks whether there is a filter and it holds of the request; this is
  \<open>filtered\<close>. Calling a nil func panics in Go; the closure does so where
  \<^verbatim>\<open>config.Key\<close> or \<^verbatim>\<open>config.Handler\<close> is nil. \<^verbatim>\<open>config.Filter\<close> and
  \<^verbatim>\<open>config.Key\<close> are taken to read the context only, and \<^verbatim>\<open>config.Handler\<close>
  to change the context only.
\<close>

definition filtered :: "'cl Config \<Rightarrow> Ctx \<Rightarrow> bool" where
  "filtered config c = (case Filter config of None \<Rightarrow> False | Some f \<Rightarrow> f c)"

definition gate ::
  "('cl, 'st) allow_fn \<Rightarrow> 'cl Config \<Rightarrow> 'cl Limiter \<Rightarrow> Limit \<Rightarrow> 'st World
     \<Rightarrow> panic + 'st World" where
  "gate allow config limiter limit w =
    (if filtered config (ctx w) then Inr (Next w)
     else
       case Key config of
         None \<Rightarrow> Inl NilFuncCall
       | Some keyf \<Rightarrow>
          (case Allow allow limiter (keyf (ctx w)) limit w of
             (Inl err, w1) \<Rightarrow> Inr (Next w1)
           | (Inr result, w1) \<Rightarrow>
               if \<not> Allowed result then
                 (case Handler config of
                    None \<Rightarrow> Inl NilFuncCall
                  | Some h \<Rightarrow>
                      Inr (Set ''Retry-After''
                             (FormatInt (Unix (Add (clock w1) (RetryAfter result))))
                             (callHandler h w1)))
               else
                 Inr (Next
                   (Set ''X-RateLimit-Reset''
                      (FormatInt (Unix (Add (clock w1) (ResetAfter result))))
                   (Set ''X-RateLimit-Remaining'' (FormatInt (Remaining result))
                   (Set ''X-RateLimit-Limit'' (Itoa (Max' config)) w1))))))"

subsection \<open>New (main.go, lines 69--156)\<close>

text \<open>
  \<^verbatim>\<open>go_limiter.NewLimiter\<close> wraps the client; line 123 then overwrites the prefix
  it chose, so the limiter the closure uses has the prefix of the configuration.
\<close>

definition newLimiter :: "'cl \<Rightarrow> string \<Rightarrow> 'cl Limiter" where
  "newLimiter client prefix = \<lparr>rdb = client, Limiter_Prefix = prefix\<rparr>"

definition newLimit :: "'cl Config \<Rightarrow> Limit" where
  "newLimit config =
     \<lparr>Limit_Period = Period config, Limit_Algorithm = Algorithm config,
      Limit_Rate = Max' config, Limit_Burst = Burst config\<rparr>"

definition New ::
  "('cl, 'st) allow_fn \<Rightarrow> 'cl Config \<Rightarrow> panic + ('st World \<Rightarrow> panic + 'st World)" where
  "New allow config0 =
    (case Rediser config0 of
       None \<Rightarrow> Inl (Panic ''redis client is missing'')
     | Some client \<Rightarrow>
         (let config = applyDefaults config0;
              limiter = newLimiter client (Prefix config);
              limit = newLimit config
          in Inr (gate allow config limiter limit)))"

text \<open>
  \<^verbatim>\<open>New(config)(c)\<close>, as main\_test.go writes it: the handler is built and run on
  one request. A panic of \<^verbatim>\<open>New\<close> is the outcome.
\<close>

fun run :: "panic + ('st World \<Rightarrow> panic + 'st World) \<Rightarrow> 'st World \<Rightarrow> panic + 'st World" where
  "run (Inl e) w = Inl e"
| "run (Inr h) w = h w"

subsection \<open>Serving requests\<close>

text \<open>
  The framework runs the handler once for each request, with the context of that
  request and at the time it arrives; the store and the log carry over. A panic
  ends the run.
\<close>

fun serve ::
  "('st World \<Rightarrow> panic + 'st World) \<Rightarrow> (Ctx \<times> int) list \<Rightarrow> 'st World
     \<Rightarrow> panic + 'st World" where
  "serve h [] w = Inr w"
| "serve h ((c, t) # rs) w =
     (case h (w\<lparr>ctx := c, clock := t\<rparr>) of
        Inl e \<Rightarrow> Inl e
      | Inr w' \<Rightarrow> serve h rs w')"

text \<open>The limits that the logged calls of \<^verbatim>\<open>limiter.Allow\<close> were given.\<close>

fun allowLimits :: "call list \<Rightarrow> Limit list" where
  "allowLimits [] = []"
| "allowLimits (CallAllow p k l # cs) = l # allowLimits cs"
| "allowLimits (c # cs) = allowLimits cs"

subsection \<open>Concrete inputs\<close>

text \<open>
  \<open>zeroConfig\<close> is \<^verbatim>\<open>Config{}\<close>, the argument of the test in main\_test.go, and
  \<open>exampleConfig\<close> is the configuration of examples/main.go: three requests in ten
  seconds. \<open>clientConfig\<close> is \<^verbatim>\<open>Config{Rediser: client}\<close>, a client and nothing
  else. \<open>counterAllow\<close> stands in for the library where a concrete run needs
  one: a counter for each key, and no store at all (\<open>None\<close>) when Redis cannot be
  reached.
\<close>

definition zeroConfig :: "nat Config" where
  "zeroConfig =
     \<lparr>Rediser = None, Max' = 0, Burst = 0, StatusCode = 0, Message = [], Algorithm = [],
      Prefix = [], Period = 0, Filter = None, Key = None, Handler = None\<rparr>"

definition exampleConfig :: "nat Config" where
  "exampleConfig =
     zeroConfig\<lparr>Rediser := Some 1, Max' := 3, Burst := 3, Period := 10 * Second,
                Algorithm := GCRAAlgorithm\<rparr>"

definition clientConfig :: "nat Config" where
  "clientConfig = zeroConfig\<lparr>Rediser := Some 1\<rparr>"

definition counterAllow :: "(nat, (string \<rightharpoonup> int) option) allow_fn" where
  "counterAllow limiter k limit now st =
     (case st of
        None \<Rightarrow> (Inl ''connection refused'', None)
      | Some m \<Rightarrow>
          (let n = (case m k of None \<Rightarrow> 0 | Some i \<Rightarrow> i) + 1
           in (Inr \<lparr>Allowed = (n \<le> Limit_Rate limit),
                    Remaining = max 0 (Limit_Rate limit - n),
                    RetryAfter = (if n \<le> Limit_Rate limit then - 1 else Limit_Period limit),
                    ResetAfter = Limit_Period limit\<rparr>,
               Some (m(k \<mapsto> n)))))"

definition exampleCtx :: Ctx where
  "exampleCtx =
     \<lparr>IP = ''10.0.0.7'', resp_status = 200, resp_body = [], resp_headers = Map.empty\<rparr>"

definition exampleWorld :: "(string \<rightharpoonup> int) option \<Rightarrow> (string \<rightharpoonup> int) option World" where
  "exampleWorld st = \<lparr>ctx = exampleCtx, store = st, clock = 1585918915500000000, calls = []\<rparr>"

section \<open>Properties\<close>

subsection \<open>The defaults, field by field\<close>

text \<open>Each defaulting statement changes one field and leaves the others.\<close>

lemma defaultKey_fields [simp]:
  "Rediser (defaultKey c) = Rediser c" "Max' (defaultKey c) = Max' c"
  "Burst (defaultKey c) = Burst c" "StatusCode (defaultKey c) = StatusCode c"
  "Message (defaultKey c) = Message c" "Algorithm (defaultKey c) = Algorithm c"
  "Prefix (defaultKey c) = Prefix c" "Period (defaultKey c) = Period c"
  "Filter (defaultKey c) = Filter c" "Handler (defaultKey c) = Handler c"
  "Key (defaultKey c) = (case Key c of None \<Rightarrow> Some (\<lambda>x. IP x) | Some k \<Rightarrow> Some k)"
  by (simp_all add: defaultKey_def split: option.splits)

lemma defaultAlgorithm_fields [simp]:
  "Rediser (defaultAlgorithm c) = Rediser c" "Max' (defaultAlgorithm c) = Max' c"
  "Burst (defaultAlgorithm c) = Burst c" "StatusCode (defaultAlgorithm c) = StatusCode c"
  "Message (defaultAlgorithm c) = Message c" "Key (defaultAlgorithm c) = Key c"
  "Prefix (defaultAlgorithm c) = Prefix c" "Period (defaultAlgorithm c) = Period c"
  "Filter (defaultAlgorithm c) = Filter c" "Handler (defaultAlgorithm c) = Handler c"
  "Algorithm (defaultAlgorithm c) = (if Algorithm c = [] then SimpleAlgorithm else Algorithm c)"
  by (simp_all add: defaultAlgorithm_def)

lemma defaultPeriod_fields [simp]:
  "Rediser (defaultPeriod c) = Rediser c" "Max' (defaultPeriod c) = Max' c"
  "Burst (defaultPeriod c) = Burst c" "StatusCode (defaultPeriod c) = StatusCode c"
  "Message (defaultPeriod c) = Message c" "Key (defaultPeriod c) = Key c"
  "Prefix (defaultPeriod c) = Prefix c" "Algorithm (defaultPeriod c) = Algorithm c"
  "Filter (defaultPeriod c) = Filter c" "Handler (defaultPeriod c) = Handler c"
  "Period (defaultPeriod c) = (if Period c = 0 then Minute else Period c)"
  by (simp_all add: defaultPeriod_def)

lemma defaultMax_fields [simp]:
  "Rediser (defaultMax c) = Rediser c" "Period (defaultMax c) = Period c"
  "Burst (defaultMax c) = Burst c" "StatusCode (defaultMax c) = StatusCode c"
  "Message (defaultMax c) = Message c" "Key (defaultMax c) = Key c"
  "Prefix (defaultMax c) = Prefix c" "Algorithm (defaultMax c) = Algorithm c"
  "Filter (defaultMax c) = Filter c" "Handler (defaultMax c) = Handler c"
  "Max' (defaultMax c) = (if Max' c = 0 then 10 else Max' c)"
  by (simp_all add: defaultMax_def)

lemma defaultBurst_fields [simp]:
  "Rediser (defaultBurst c) = Rediser c" "Period (defaultBurst c) = Period c"
  "Max' (defaultBurst c) = Max' c" "StatusCode (defaultBurst c) = StatusCode c"
  "Message (defaultBurst c) = Message c" "Key (defaultBurst c) = Key c"
  "Prefix (defaultBurst c) = Prefix c" "Algorithm (defaultBurst c) = Algorithm c"
  "Filter (defaultBurst c) = Filter c" "Handler (defaultBurst c) = Handler c"
  "Burst (defaultBurst c) = (if Burst c = 0 then 10 else Burst c)"
  by (simp_all add: defaultBurst_def)

lemma defaultPrefix_fields [simp]:
  "Rediser (defaultPrefix c) = Rediser c" "Period (defaultPrefix c) = Period c"
  "Max' (defaultPrefix c) = Max' c" "StatusCode (defaultPrefix c) = StatusCode c"
  "Message (defaultPrefix c) = Message c" "Key (defaultPrefix c) = Key c"
  "Burst (defaultPrefix c) = Burst c" "Algorithm (defaultPrefix c) = Algorithm c"
  "Filter (defaultPrefix c) = Filter c" "Handler (defaultPrefix c) = Handler c"
  "Prefix (defaultPrefix c) = (if Prefix c = [] then DefaultKeyPrefix else Prefix c)"
  by (simp_all add: defaultPrefix_def)

lemma defaultMessage_fields [simp]:
  "Rediser (defaultMessage c) = Rediser c" "Period (defaultMessage c) = Period c"
  "Max' (defaultMessage c) = Max' c" "StatusCode (defaultMessage c) = StatusCode c"
  "Prefix (defaultMessage c) = Prefix c" "Key (defaultMessage c) = Key c"
  "Burst (defaultMessage c) = Burst c" "Algorithm (defaultMessage c) = Algorithm c"
  "Filter (defaultMessage c) = Filter c" "Handler (defaultMessage c) = Handler c"
  "Message (defaultMessage c) =
     (if Message c = [] then ''Too many requests, please try again later.'' else Message c)"
  by (simp_all add: defaultMessage_def)

lemma defaultStatusCode_fields [simp]:
  "Rediser (defaultStatusCode c) = Rediser c" "Period (defaultStatusCode c) = Period c"
  "Max' (defaultStatusCode c) = Max' c" "Message (defaultStatusCode c) = Message c"
  "Prefix (defaultStatusCode c) = Prefix c" "Key (defaultStatusCode c) = Key c"
  "Burst (defaultStatusCode c) = Burst c" "Algorithm (defaultStatusCode c) = Algorithm c"
  "Filter (defaultStatusCode c) = Filter c" "Handler (defaultStatusCode c) = Handler c"
  "StatusCode (defaultStatusCode c) =
     (if StatusCode c = 0 then StatusTooManyRequests else StatusCode c)"
  by (simp_all add: defaultStatusCode_def)

lemma defaultHandler_fields [simp]:
  "Rediser (defaultHandler c) = Rediser c" "Period (defaultHandler c) = Period c"
  "Max' (defaultHandler c) = Max' c" "Message (defaultHandler c) = Message c"
  "Prefix (defaultHandler c) = Prefix c" "Key (defaultHandler c) = Key c"
  "Burst (defaultHandler c) = Burst c" "Algorithm (defaultHandler c) = Algorithm c"
  "Filter (defaultHandler c) = Filter c" "StatusCode (defaultHandler c) = StatusCode c"
  "Handler (defaultHandler c) =
     (case Handler c of
        None \<Rightarrow> Some (\<lambda>x. SendString (Message c) (Status (StatusCode c) x))
      | Some h \<Rightarrow> Some h)"
  by (simp_all add: defaultHandler_def split: option.splits)

lemma applyDefaults_fields:
  "Rediser (applyDefaults c) = Rediser c"
  "Max' (applyDefaults c) = (if Max' c = 0 then 10 else Max' c)"
  "Burst (applyDefaults c) = (if Burst c = 0 then 10 else Burst c)"
  "Period (applyDefaults c) = (if Period c = 0 then Minute else Period c)"
  "StatusCode (applyDefaults c) =
     (if StatusCode c = 0 then StatusTooManyRequests else StatusCode c)"
  "Message (applyDefaults c) =
     (if Message c = [] then ''Too many requests, please try again later.'' else Message c)"
  "Algorithm (applyDefaults c) = (if Algorithm c = [] then SimpleAlgorithm else Algorithm c)"
  "Prefix (applyDefaults c) = (if Prefix c = [] then DefaultKeyPrefix else Prefix c)"
  "Filter (applyDefaults c) = Filter c"
  "Key (applyDefaults c) = (case Key c of None \<Rightarrow> Some (\<lambda>x. IP x) | Some k \<Rightarrow> Some k)"
  "Handler (applyDefaults c) =
     (case Handler c of
        None \<Rightarrow> Some (\<lambda>x. SendString (Message (applyDefaults c))
                              (Status (StatusCode (applyDefaults c)) x))
      | Some h \<Rightarrow> Some h)"
  by (simp_all add: applyDefaults_def split: option.splits)

subsection \<open>New and the branches of the closure\<close>

lemma New_nil:
  "Rediser config = None \<Longrightarrow> New allow config = Inl (Panic ''redis client is missing'')"
  by (simp add: New_def)

lemma New_Some:
  "Rediser config = Some client \<Longrightarrow>
   New allow config =
     Inr (gate allow (applyDefaults config)
            (newLimiter client (Prefix (applyDefaults config)))
            (newLimit (applyDefaults config)))"
  by (simp add: New_def Let_def)

lemma applyDefaults_Key_Some: "\<exists>keyf. Key (applyDefaults config) = Some keyf"
  by (simp add: applyDefaults_fields split: option.splits)

lemma applyDefaults_Handler_Some: "\<exists>handler. Handler (applyDefaults config) = Some handler"
  by (simp add: applyDefaults_fields split: option.splits)

lemma filtered_applyDefaults: "filtered (applyDefaults config) c = filtered config c"
  by (simp add: filtered_def applyDefaults_fields)

lemma gate_filtered:
  "filtered config (ctx w) \<Longrightarrow>
   gate allow config limiter limit w = Inr (w\<lparr>calls := calls w @ [CallNext]\<rparr>)"
  by (simp add: gate_def Next_def)

lemma gate_error:
  assumes "\<not> filtered config (ctx w)"
    and "Key config = Some keyf"
    and "allow limiter (keyf (ctx w)) limit (clock w) (store w) = (Inl err, st)"
  shows "gate allow config limiter limit w =
           Inr (w\<lparr>store := st,
                  calls := calls w @ [CallAllow (Limiter_Prefix limiter) (keyf (ctx w)) limit,
                                      CallNext]\<rparr>)"
  using assms by (simp add: gate_def Allow_def Next_def)

lemma gate_denied:
  assumes "\<not> filtered config (ctx w)"
    and "Key config = Some keyf"
    and "allow limiter (keyf (ctx w)) limit (clock w) (store w) = (Inr result, st)"
    and "\<not> Allowed result"
    and "Handler config = Some handler"
  shows "gate allow config limiter limit w =
           Inr (w\<lparr>ctx := (handler (ctx w))\<lparr>resp_headers := (resp_headers (handler (ctx w)))
                          (''Retry-After'' \<mapsto>
                             FormatInt (Unix (Add (clock w) (RetryAfter result))))\<rparr>,
                  store := st,
                  calls := calls w @ [CallAllow (Limiter_Prefix limiter) (keyf (ctx w)) limit,
                                      CallHandler]\<rparr>)"
  using assms by (simp add: gate_def Allow_def Set_def callHandler_def)

lemma gate_allowed:
  assumes "\<not> filtered config (ctx w)"
    and "Key config = Some keyf"
    and "allow limiter (keyf (ctx w)) limit (clock w) (store w) = (Inr result, st)"
    and "Allowed result"
  shows "gate allow config limiter limit w =
           Inr (w\<lparr>ctx := (ctx w)\<lparr>resp_headers := (resp_headers (ctx w))
                          (''X-RateLimit-Limit'' \<mapsto> Itoa (Max' config),
                           ''X-RateLimit-Remaining'' \<mapsto> FormatInt (Remaining result),
                           ''X-RateLimit-Reset'' \<mapsto>
                              FormatInt (Unix (Add (clock w) (ResetAfter result))))\<rparr>,
                  store := st,
                  calls := calls w @ [CallAllow (Limiter_Prefix limiter) (keyf (ctx w)) limit,
                                      CallNext]\<rparr>)"
  using assms by (simp add: gate_def Allow_def Set_def Next_def)

text \<open>
  With a key function and a handler in place the closure never panics, and it calls
  \<^verbatim>\<open>limiter.Allow\<close> at most once, with the limit it was built with.
\<close>

lemma allowLimits_append: "allowLimits (xs @ ys) = allowLimits xs @ allowLimits ys"
  by (induction xs rule: allowLimits.induct) simp_all

lemma gate_step:
  assumes "Key config = Some keyf" and "Handler config = Some handler"
  shows "\<exists>w'. gate allow config limiter limit w = Inr w' \<and>
           (allowLimits (calls w') = allowLimits (calls w) \<or>
            allowLimits (calls w') = allowLimits (calls w) @ [limit])"
proof (cases "filtered config (ctx w)")
  case True
  then show ?thesis
    by (simp add: gate_filtered allowLimits_append)
next
  case False
  obtain r st where a: "allow limiter (keyf (ctx w)) limit (clock w) (store w) = (r, st)"
    by (cases "allow limiter (keyf (ctx w)) limit (clock w) (store w)")
  show ?thesis
  proof (cases r)
    case (Inl err)
    with False assms a show ?thesis
      by (simp add: gate_error allowLimits_append)
  next
    case (Inr result)
    show ?thesis
    proof (cases "Allowed result")
      case True
      with False assms a Inr show ?thesis
        by (simp add: gate_allowed allowLimits_append)
    next
      case notallowed: False
      with False assms a Inr show ?thesis
        by (simp add: gate_denied allowLimits_append)
    qed
  qed
qed

lemma serve_limits:
  assumes "\<And>w. \<exists>w'. h w = Inr w' \<and>
             (allowLimits (calls w') = allowLimits (calls w) \<or>
              allowLimits (calls w') = allowLimits (calls w) @ [limit])"
  shows "\<exists>w' n. serve h rs w = Inr w' \<and> n \<le> length rs \<and>
           allowLimits (calls w') = allowLimits (calls w) @ replicate n limit"
proof (induction rs arbitrary: w)
  case Nil
  show ?case by simp
next
  case (Cons r rs)
  obtain c t where r: "r = (c, t)" by (cases r)
  from assms obtain w1 where
    w1: "h (w\<lparr>ctx := c, clock := t\<rparr>) = Inr w1"
    and l1: "allowLimits (calls w1) = allowLimits (calls w) \<or>
             allowLimits (calls w1) = allowLimits (calls w) @ [limit]"
    by fastforce
  from Cons.IH [of w1] obtain w' n where
    s: "serve h rs w1 = Inr w'" and n: "n \<le> length rs"
    and l: "allowLimits (calls w') = allowLimits (calls w1) @ replicate n limit"
    by blast
  from l1 show ?case
  proof
    assume "allowLimits (calls w1) = allowLimits (calls w)"
    with r w1 s n l have
      "serve h (r # rs) w = Inr w' \<and> n \<le> length (r # rs) \<and>
       allowLimits (calls w') = allowLimits (calls w) @ replicate n limit"
      by simp
    then show ?thesis by blast
  next
    assume "allowLimits (calls w1) = allowLimits (calls w) @ [limit]"
    with r w1 s n l have
      "serve h (r # rs) w = Inr w' \<and> Suc n \<le> length (r # rs) \<and>
       allowLimits (calls w') = allowLimits (calls w) @ replicate (Suc n) limit"
      by simp
    then show ?thesis by blast
  qed
qed

subsection \<open>Printing the numbers of the concrete runs\<close>

lemma digits_small: "n < 10 \<Longrightarrow> digits n = [digit n]"
  by (simp add: digits.simps)

lemma digits_large: "\<not> n < 10 \<Longrightarrow> digits n = digits (n div 10) @ [digit (n mod 10)]"
  by (subst digits.simps) simp

lemmas FormatInt_eval = FormatInt_def digits_small digits_large digit_def

lemma FormatInt_2: "FormatInt 2 = ''2''"
  by (simp add: FormatInt_eval)

lemma FormatInt_3: "FormatInt 3 = ''3''"
  by (simp add: FormatInt_eval)

lemma FormatInt_10: "FormatInt 10 = ''10''"
  by (simp add: FormatInt_eval)

lemma FormatInt_1585918925: "FormatInt 1585918925 = ''1585918925''"
  by (simp add: FormatInt_eval)

subsection \<open>The example configuration after the defaults\<close>

lemma default_handler_eq:
  "(\<lambda>x. SendString m (Status s x)) = (\<lambda>c. c\<lparr>resp_status := s, resp_body := m\<rparr>)"
  by (simp add: SendString_def Status_def)

lemma exampleConfig_Rediser: "Rediser exampleConfig = Some 1"
  by (simp add: exampleConfig_def)

lemma exampleConfig_not_filtered: "\<not> filtered exampleConfig c"
  by (simp add: filtered_def exampleConfig_def zeroConfig_def)

lemma exampleConfig_Key: "Key (applyDefaults exampleConfig) = Some IP"
  by (simp add: applyDefaults_fields exampleConfig_def zeroConfig_def)

lemma exampleConfig_Handler:
  "Handler (applyDefaults exampleConfig) =
     Some (\<lambda>c. c\<lparr>resp_status := 429,
                 resp_body := ''Too many requests, please try again later.''\<rparr>)"
  by (simp add: applyDefaults_fields exampleConfig_def zeroConfig_def default_handler_eq
      StatusTooManyRequests_def)

lemma exampleConfig_Prefix: "Prefix (applyDefaults exampleConfig) = ''fiber_limiter''"
  by (simp add: applyDefaults_fields exampleConfig_def zeroConfig_def DefaultKeyPrefix_def)

lemma exampleConfig_Max: "Max' (applyDefaults exampleConfig) = 3"
  by (simp add: applyDefaults_fields exampleConfig_def zeroConfig_def)

lemma exampleConfig_limit:
  "newLimit (applyDefaults exampleConfig) =
     \<lparr>Limit_Period = 10000000000, Limit_Algorithm = ''gcra'', Limit_Rate = 3, Limit_Burst = 3\<rparr>"
  by (simp add: newLimit_def applyDefaults_fields exampleConfig_def zeroConfig_def
      Second_def GCRAAlgorithm_def)

lemmas exampleConfig_simps =
  exampleConfig_Rediser exampleConfig_not_filtered exampleConfig_Key exampleConfig_Handler
  exampleConfig_Prefix exampleConfig_Max exampleConfig_limit


subsection \<open>The bare configuration after the defaults\<close>

lemma bareConfig_Rediser: "Rediser clientConfig = Some 1"
  by (simp add: clientConfig_def)

lemma bareConfig_not_filtered: "\<not> filtered clientConfig c"
  by (simp add: filtered_def clientConfig_def zeroConfig_def)

lemma bareConfig_Key: "Key (applyDefaults clientConfig) = Some IP"
  by (simp add: applyDefaults_fields clientConfig_def zeroConfig_def)

lemma bareConfig_Handler:
  "Handler (applyDefaults clientConfig) =
     Some (\<lambda>c. c\<lparr>resp_status := 429,
                 resp_body := ''Too many requests, please try again later.''\<rparr>)"
  by (simp add: applyDefaults_fields clientConfig_def zeroConfig_def default_handler_eq
      StatusTooManyRequests_def)

lemma bareConfig_Prefix:
  "Prefix (applyDefaults clientConfig) = ''fiber_limiter''"
  by (simp add: applyDefaults_fields clientConfig_def zeroConfig_def DefaultKeyPrefix_def)

lemma bareConfig_Max: "Max' (applyDefaults clientConfig) = 10"
  by (simp add: applyDefaults_fields clientConfig_def zeroConfig_def)

lemma bareConfig_limit:
  "newLimit (applyDefaults clientConfig) =
     \<lparr>Limit_Period = 60000000000, Limit_Algorithm = ''simple'', Limit_Rate = 10,
      Limit_Burst = 10\<rparr>"
  by (simp add: newLimit_def applyDefaults_fields clientConfig_def zeroConfig_def Minute_def Second_def
      SimpleAlgorithm_def)

lemmas bareConfig_simps =
  bareConfig_Rediser bareConfig_not_filtered bareConfig_Key bareConfig_Handler
  bareConfig_Prefix bareConfig_Max bareConfig_limit

subsection \<open>An explicit zero and the default give the same configuration\<close>

lemma Max_update_commutes:
  "defaultKey (c\<lparr>Max' := m\<rparr>) = (defaultKey c)\<lparr>Max' := m\<rparr>"
  "defaultAlgorithm (c\<lparr>Max' := m\<rparr>) = (defaultAlgorithm c)\<lparr>Max' := m\<rparr>"
  "defaultPeriod (c\<lparr>Max' := m\<rparr>) = (defaultPeriod c)\<lparr>Max' := m\<rparr>"
  by (simp_all add: defaultKey_def defaultAlgorithm_def defaultPeriod_def)

lemma Burst_update_commutes:
  "defaultKey (c\<lparr>Burst := m\<rparr>) = (defaultKey c)\<lparr>Burst := m\<rparr>"
  "defaultAlgorithm (c\<lparr>Burst := m\<rparr>) = (defaultAlgorithm c)\<lparr>Burst := m\<rparr>"
  "defaultPeriod (c\<lparr>Burst := m\<rparr>) = (defaultPeriod c)\<lparr>Burst := m\<rparr>"
  "defaultMax (c\<lparr>Burst := m\<rparr>) = (defaultMax c)\<lparr>Burst := m\<rparr>"
  by (simp_all add: defaultKey_def defaultAlgorithm_def defaultPeriod_def defaultMax_def)

lemma Period_update_commutes:
  "defaultKey (c\<lparr>Period := m\<rparr>) = (defaultKey c)\<lparr>Period := m\<rparr>"
  "defaultAlgorithm (c\<lparr>Period := m\<rparr>) = (defaultAlgorithm c)\<lparr>Period := m\<rparr>"
  by (simp_all add: defaultKey_def defaultAlgorithm_def)

lemma StatusCode_update_commutes:
  "defaultKey (c\<lparr>StatusCode := m\<rparr>) = (defaultKey c)\<lparr>StatusCode := m\<rparr>"
  "defaultAlgorithm (c\<lparr>StatusCode := m\<rparr>) = (defaultAlgorithm c)\<lparr>StatusCode := m\<rparr>"
  "defaultPeriod (c\<lparr>StatusCode := m\<rparr>) = (defaultPeriod c)\<lparr>StatusCode := m\<rparr>"
  "defaultMax (c\<lparr>StatusCode := m\<rparr>) = (defaultMax c)\<lparr>StatusCode := m\<rparr>"
  "defaultBurst (c\<lparr>StatusCode := m\<rparr>) = (defaultBurst c)\<lparr>StatusCode := m\<rparr>"
  "defaultPrefix (c\<lparr>StatusCode := m\<rparr>) = (defaultPrefix c)\<lparr>StatusCode := m\<rparr>"
  "defaultMessage (c\<lparr>StatusCode := m\<rparr>) = (defaultMessage c)\<lparr>StatusCode := m\<rparr>"
  by (simp_all add: defaultKey_def defaultAlgorithm_def defaultPeriod_def defaultMax_def
      defaultBurst_def defaultPrefix_def defaultMessage_def)

lemma zero_is_default:
  "defaultMax (c\<lparr>Max' := 0\<rparr>) = defaultMax (c\<lparr>Max' := 10\<rparr>)"
  "defaultBurst (c\<lparr>Burst := 0\<rparr>) = defaultBurst (c\<lparr>Burst := 10\<rparr>)"
  "defaultPeriod (c\<lparr>Period := 0\<rparr>) = defaultPeriod (c\<lparr>Period := Minute\<rparr>)"
  "defaultStatusCode (c\<lparr>StatusCode := 0\<rparr>) = defaultStatusCode (c\<lparr>StatusCode := 429\<rparr>)"
  by (simp_all add: defaultMax_def defaultBurst_def defaultPeriod_def defaultStatusCode_def
      Minute_def Second_def StatusTooManyRequests_def)

lemma applyDefaults_zero:
  "applyDefaults (c\<lparr>Max' := 0\<rparr>) = applyDefaults (c\<lparr>Max' := 10\<rparr>)"
  "applyDefaults (c\<lparr>Burst := 0\<rparr>) = applyDefaults (c\<lparr>Burst := 10\<rparr>)"
  "applyDefaults (c\<lparr>Period := 0\<rparr>) = applyDefaults (c\<lparr>Period := Minute\<rparr>)"
  "applyDefaults (c\<lparr>StatusCode := 0\<rparr>) = applyDefaults (c\<lparr>StatusCode := 429\<rparr>)"
  by (simp_all only: applyDefaults_def Max_update_commutes Burst_update_commutes
      Period_update_commutes StatusCode_update_commutes zero_is_default)

lemma New_cong:
  "Rediser c = Rediser c' \<Longrightarrow> applyDefaults c = applyDefaults c' \<Longrightarrow>
   New allow c = New allow c'"
  by (cases "Rediser c'") (simp_all add: New_def)

subsection \<open>C1: a store error lets the request proceed\<close>




subsection \<open>C3: a missing Redis client is a panic of New, never of a request\<close>

text \<open>
  C3. When \<^verbatim>\<open>Rediser\<close> is nil, \<^verbatim>\<open>New\<close> panics with ``redis client is missing''
  (lines 70--72), so no handler exists that could fail on a request; this is what
  \<^verbatim>\<open>TestPanicOnNilRediser\<close> runs. When a client is present, \<^verbatim>\<open>New\<close> returns a
  handler, and that handler ends without a panic on every request, whatever the
  library answers.
\<close>

theorem New_panics_exactly_without_Rediser:
  "(Rediser config = None \<longrightarrow>
      New allow config = Inl (Panic ''redis client is missing'') \<and>
      run (New allow config) w = Inl (Panic ''redis client is missing''))
   \<and> (Rediser config \<noteq> None \<longrightarrow>
      (\<exists>h. New allow config = Inr h \<and> (\<forall>w. \<exists>w'. h w = Inr w')))"
proof (cases "Rediser config")
  case None
  then show ?thesis by (simp add: New_nil)
next
  case (Some client)
  obtain keyf where k: "Key (applyDefaults config) = Some keyf"
    using applyDefaults_Key_Some by blast
  obtain handler where h: "Handler (applyDefaults config) = Some handler"
    using applyDefaults_Handler_Some by blast
  have "\<exists>w'. gate allow (applyDefaults config)
               (newLimiter client (Prefix (applyDefaults config)))
               (newLimit (applyDefaults config)) w = Inr w'" for w
    using gate_step [OF k h] by blast
  with Some show ?thesis by (simp add: New_Some)
qed

theorem New_panics_exactly_without_Rediser_witness:
  "Rediser zeroConfig = None \<and>
   New counterAllow zeroConfig = Inl (Panic ''redis client is missing'') \<and>
   run (New counterAllow zeroConfig) (exampleWorld None) =
     Inl (Panic ''redis client is missing'') \<and>
   Rediser exampleConfig \<noteq> None \<and>
   (\<exists>h. New counterAllow exampleConfig = Inr h \<and> (\<forall>w. \<exists>w'. h w = Inr w'))"
  using New_panics_exactly_without_Rediser [of zeroConfig counterAllow "exampleWorld None"]
    New_panics_exactly_without_Rediser [of exampleConfig counterAllow]
  by (simp add: zeroConfig_def exampleConfig_def)

subsection \<open>C4: an allowed request gets the rate-limit headers and proceeds\<close>

text \<open>
  C4. When the request is not filtered and \<^verbatim>\<open>limiter.Allow\<close> returns a result
  with \<^verbatim>\<open>Allowed\<close> true (lines 149--154), the handler sets
  \<^verbatim>\<open>X-RateLimit-Limit\<close> to the configured maximum, \<^verbatim>\<open>X-RateLimit-Remaining\<close>
  to \<^verbatim>\<open>result.Remaining\<close> and \<^verbatim>\<open>X-RateLimit-Reset\<close> to the Unix time, in
  seconds, of now plus \<^verbatim>\<open>result.ResetAfter\<close>, and then calls \<^verbatim>\<open>c.Next()\<close>.
  Status and body are left alone, and the log shows the one call of
  \<^verbatim>\<open>limiter.Allow\<close> followed by \<open>CallNext\<close>.
\<close>

theorem allowed_request_gets_headers_and_proceeds:
  assumes "Rediser config = Some client"
    and "\<not> filtered config (ctx w)"
    and "Key (applyDefaults config) = Some keyf"
    and "allow (newLimiter client (Prefix (applyDefaults config))) (keyf (ctx w))
           (newLimit (applyDefaults config)) (clock w) (store w) = (Inr result, st)"
    and "Allowed result"
  shows "run (New allow config) w =
     Inr (w\<lparr>ctx := (ctx w)\<lparr>resp_headers := (resp_headers (ctx w))
                (''X-RateLimit-Limit'' \<mapsto> Itoa (Max' (applyDefaults config)),
                 ''X-RateLimit-Remaining'' \<mapsto> FormatInt (Remaining result),
                 ''X-RateLimit-Reset'' \<mapsto>
                    FormatInt (Unix (Add (clock w) (ResetAfter result))))\<rparr>,
            store := st,
            calls := calls w @
              [CallAllow (Prefix (applyDefaults config)) (keyf (ctx w))
                 (newLimit (applyDefaults config)),
               CallNext]\<rparr>)"
proof -
  from assms(2) have nf: "\<not> filtered (applyDefaults config) (ctx w)"
    by (simp add: filtered_applyDefaults)
  from assms(1) have
    "run (New allow config) w =
       gate allow (applyDefaults config) (newLimiter client (Prefix (applyDefaults config)))
         (newLimit (applyDefaults config)) w"
    by (simp add: New_Some)
  also have "\<dots> = Inr (w\<lparr>ctx := (ctx w)\<lparr>resp_headers := (resp_headers (ctx w))
                (''X-RateLimit-Limit'' \<mapsto> Itoa (Max' (applyDefaults config)),
                 ''X-RateLimit-Remaining'' \<mapsto> FormatInt (Remaining result),
                 ''X-RateLimit-Reset'' \<mapsto>
                    FormatInt (Unix (Add (clock w) (ResetAfter result))))\<rparr>,
            store := st,
            calls := calls w @
              [CallAllow (Limiter_Prefix (newLimiter client (Prefix (applyDefaults config))))
                 (keyf (ctx w)) (newLimit (applyDefaults config)),
               CallNext]\<rparr>)"
    by (rule gate_allowed
          [where allow = allow and keyf = keyf and w = w
             and limiter = "newLimiter client (Prefix (applyDefaults config))"
             and limit = "newLimit (applyDefaults config)",
           OF nf assms(3) assms(4) assms(5)])
  finally show ?thesis by (simp add: newLimiter_def)
qed

text \<open>
  The first request to the gate of examples/main.go, at 13:01:55.5 UTC on 3 April
  2020: the three header values are those of the first response in the README.
\<close>

theorem allowed_request_gets_headers_and_proceeds_witness:
  "Rediser exampleConfig = Some 1 \<and>
   \<not> filtered exampleConfig (ctx (exampleWorld (Some Map.empty))) \<and>
   Key (applyDefaults exampleConfig) = Some IP \<and>
   counterAllow (newLimiter 1 (Prefix (applyDefaults exampleConfig))) ''10.0.0.7''
     (newLimit (applyDefaults exampleConfig)) 1585918915500000000 (Some Map.empty) =
     (Inr \<lparr>Allowed = True, Remaining = 2, RetryAfter = - 1, ResetAfter = 10000000000\<rparr>,
      Some [''10.0.0.7'' \<mapsto> 1]) \<and>
   run (New counterAllow exampleConfig) (exampleWorld (Some Map.empty)) =
     Inr \<lparr>ctx = exampleCtx\<lparr>resp_headers :=
                  [''X-RateLimit-Limit'' \<mapsto> ''3'',
                   ''X-RateLimit-Remaining'' \<mapsto> ''2'',
                   ''X-RateLimit-Reset'' \<mapsto> ''1585918925'']\<rparr>,
          store = Some [''10.0.0.7'' \<mapsto> 1],
          clock = 1585918915500000000,
          calls = [CallAllow ''fiber_limiter'' ''10.0.0.7''
                     \<lparr>Limit_Period = 10000000000, Limit_Algorithm = ''gcra'',
                      Limit_Rate = 3, Limit_Burst = 3\<rparr>,
                   CallNext]\<rparr>"
proof -
  have a: "counterAllow (newLimiter 1 (Prefix (applyDefaults exampleConfig)))
             (IP (ctx (exampleWorld (Some Map.empty))))
             (newLimit (applyDefaults exampleConfig))
             (clock (exampleWorld (Some Map.empty))) (store (exampleWorld (Some Map.empty))) =
           (Inr \<lparr>Allowed = True, Remaining = 2, RetryAfter = - 1, ResetAfter = 10000000000\<rparr>,
            Some [''10.0.0.7'' \<mapsto> 1])"
    by (simp add: exampleConfig_limit counterAllow_def exampleWorld_def exampleCtx_def)
  from allowed_request_gets_headers_and_proceeds
         [where allow = counterAllow and keyf = IP and config = exampleConfig
            and w = "exampleWorld (Some Map.empty)" and client = 1,
          OF exampleConfig_Rediser exampleConfig_not_filtered exampleConfig_Key a]
       a
  show ?thesis
    by (simp add: exampleConfig_simps exampleWorld_def exampleCtx_def Itoa_def Unix_def
        Add_def Second_def FormatInt_2 FormatInt_3 FormatInt_1585918925)
qed

subsection \<open>C5: a rejected request gets the limit handler and Retry-After, and stops\<close>

text \<open>
  C5. When the request is not filtered and \<^verbatim>\<open>limiter.Allow\<close> returns a result
  with \<^verbatim>\<open>Allowed\<close> false (lines 140--147), the handler calls
  \<^verbatim>\<open>config.Handler\<close> and then sets \<^verbatim>\<open>Retry-After\<close> to the Unix time, in
  seconds, of now plus \<^verbatim>\<open>result.RetryAfter\<close>. The log shows the call of
  \<^verbatim>\<open>limiter.Allow\<close> and the call of the handler, and no \<open>CallNext\<close>: the
  request is not passed on. When no handler was configured, the handler that runs
  writes the configured status code and message.
\<close>

theorem rejected_request_gets_handler_and_Retry_After:
  assumes "Rediser config = Some client"
    and "\<not> filtered config (ctx w)"
    and "Key (applyDefaults config) = Some keyf"
    and "Handler (applyDefaults config) = Some handler"
    and "allow (newLimiter client (Prefix (applyDefaults config))) (keyf (ctx w))
           (newLimit (applyDefaults config)) (clock w) (store w) = (Inr result, st)"
    and "\<not> Allowed result"
  shows "run (New allow config) w =
     Inr (w\<lparr>ctx := (handler (ctx w))\<lparr>resp_headers := (resp_headers (handler (ctx w)))
                (''Retry-After'' \<mapsto>
                   FormatInt (Unix (Add (clock w) (RetryAfter result))))\<rparr>,
            store := st,
            calls := calls w @
              [CallAllow (Prefix (applyDefaults config)) (keyf (ctx w))
                 (newLimit (applyDefaults config)),
               CallHandler]\<rparr>)
     \<and> (Handler config = None \<longrightarrow>
          handler = (\<lambda>c. c\<lparr>resp_status := StatusCode (applyDefaults config),
                            resp_body := Message (applyDefaults config)\<rparr>))"
proof -
  from assms(2) have nf: "\<not> filtered (applyDefaults config) (ctx w)"
    by (simp add: filtered_applyDefaults)
  from assms(1) have
    "run (New allow config) w =
       gate allow (applyDefaults config) (newLimiter client (Prefix (applyDefaults config)))
         (newLimit (applyDefaults config)) w"
    by (simp add: New_Some)
  also have "\<dots> = Inr (w\<lparr>ctx := (handler (ctx w))\<lparr>resp_headers :=
                (resp_headers (handler (ctx w)))
                (''Retry-After'' \<mapsto>
                   FormatInt (Unix (Add (clock w) (RetryAfter result))))\<rparr>,
            store := st,
            calls := calls w @
              [CallAllow (Limiter_Prefix (newLimiter client (Prefix (applyDefaults config))))
                 (keyf (ctx w)) (newLimit (applyDefaults config)),
               CallHandler]\<rparr>)"
    by (rule gate_denied
          [where allow = allow and keyf = keyf and w = w and handler = handler
             and limiter = "newLimiter client (Prefix (applyDefaults config))"
             and limit = "newLimit (applyDefaults config)",
           OF nf assms(3) assms(5) assms(6) assms(4)])
  finally have first: "run (New allow config) w =
     Inr (w\<lparr>ctx := (handler (ctx w))\<lparr>resp_headers := (resp_headers (handler (ctx w)))
                (''Retry-After'' \<mapsto>
                   FormatInt (Unix (Add (clock w) (RetryAfter result))))\<rparr>,
            store := st,
            calls := calls w @
              [CallAllow (Prefix (applyDefaults config)) (keyf (ctx w))
                 (newLimit (applyDefaults config)),
               CallHandler]\<rparr>)"
    by (simp add: newLimiter_def)
  have second: "handler = (\<lambda>c. c\<lparr>resp_status := StatusCode (applyDefaults config),
                                  resp_body := Message (applyDefaults config)\<rparr>)"
    if "Handler config = None"
    using that assms(4) by (simp add: applyDefaults_fields(11) default_handler_eq)
  from first second show ?thesis by blast
qed

text \<open>
  The fourth request to the gate of examples/main.go within ten seconds: status 429
  with the default message, and \<^verbatim>\<open>Retry-After\<close> a Unix time in seconds, as in the
  last response of the README.
\<close>

theorem rejected_request_gets_handler_and_Retry_After_witness:
  "Rediser exampleConfig = Some 1 \<and>
   \<not> filtered exampleConfig (ctx (exampleWorld (Some [''10.0.0.7'' \<mapsto> 3]))) \<and>
   Key (applyDefaults exampleConfig) = Some IP \<and>
   Handler exampleConfig = None \<and>
   Handler (applyDefaults exampleConfig) =
     Some (\<lambda>c. c\<lparr>resp_status := 429,
                 resp_body := ''Too many requests, please try again later.''\<rparr>) \<and>
   counterAllow (newLimiter 1 (Prefix (applyDefaults exampleConfig))) ''10.0.0.7''
     (newLimit (applyDefaults exampleConfig)) 1585918915500000000
     (Some [''10.0.0.7'' \<mapsto> 3]) =
     (Inr \<lparr>Allowed = False, Remaining = 0, RetryAfter = 10000000000,
           ResetAfter = 10000000000\<rparr>,
      Some [''10.0.0.7'' \<mapsto> 4]) \<and>
   run (New counterAllow exampleConfig) (exampleWorld (Some [''10.0.0.7'' \<mapsto> 3])) =
     Inr \<lparr>ctx = \<lparr>IP = ''10.0.0.7'', resp_status = 429,
                 resp_body = ''Too many requests, please try again later.'',
                 resp_headers = [''Retry-After'' \<mapsto> ''1585918925'']\<rparr>,
          store = Some [''10.0.0.7'' \<mapsto> 4],
          clock = 1585918915500000000,
          calls = [CallAllow ''fiber_limiter'' ''10.0.0.7''
                     \<lparr>Limit_Period = 10000000000, Limit_Algorithm = ''gcra'',
                      Limit_Rate = 3, Limit_Burst = 3\<rparr>,
                   CallHandler]\<rparr>"
proof -
  let ?w = "exampleWorld (Some [''10.0.0.7'' \<mapsto> 3])"
  let ?result = "\<lparr>Allowed = False, Remaining = 0, RetryAfter = 10000000000,
                  ResetAfter = 10000000000\<rparr>"
  have a: "counterAllow (newLimiter 1 (Prefix (applyDefaults exampleConfig)))
             (IP (ctx ?w)) (newLimit (applyDefaults exampleConfig)) (clock ?w) (store ?w) =
           (Inr ?result, Some [''10.0.0.7'' \<mapsto> 4])"
    by (simp add: exampleConfig_limit counterAllow_def exampleWorld_def exampleCtx_def)
  have n: "\<not> Allowed ?result"
    by simp
  have h0: "Handler exampleConfig = None"
    by (simp add: exampleConfig_def zeroConfig_def)
  from rejected_request_gets_handler_and_Retry_After
         [where allow = counterAllow and keyf = IP and config = exampleConfig
            and w = ?w and client = 1,
          OF exampleConfig_Rediser exampleConfig_not_filtered exampleConfig_Key
             exampleConfig_Handler a n]
       a h0
  show ?thesis
    by (simp add: exampleConfig_simps exampleWorld_def exampleCtx_def Unix_def Add_def
        Second_def FormatInt_1585918925)
qed

subsection \<open>C6: the defaults\<close>

text \<open>
  C6. With a client present, \<^verbatim>\<open>New\<close> builds the handler from the configuration
  after the defaults, and each field that was left at its zero value has its
  default there: \<^verbatim>\<open>Max\<close> 10, \<^verbatim>\<open>Burst\<close> 10, \<^verbatim>\<open>Period\<close> one minute,
  \<^verbatim>\<open>Algorithm\<close> the constant \<^verbatim>\<open>SimpleAlgorithm\<close> (the counter algorithm, which
  the specification calls Sliding Window), \<^verbatim>\<open>Prefix\<close> the constant
  \<^verbatim>\<open>DefaultKeyPrefix\<close>, \<^verbatim>\<open>Key\<close> the remote address of the request,
  \<^verbatim>\<open>Handler\<close> a function that writes the configured status code and message,
  \<^verbatim>\<open>StatusCode\<close> 429 and \<^verbatim>\<open>Message\<close> a fixed sentence.
\<close>

theorem New_applies_the_defaults:
  assumes "Rediser config = Some client"
  shows "New allow config =
           Inr (gate allow (applyDefaults config)
                  (newLimiter client (Prefix (applyDefaults config)))
                  (newLimit (applyDefaults config)))
    \<and> (Max' config = 0 \<longrightarrow> Max' (applyDefaults config) = 10)
    \<and> (Burst config = 0 \<longrightarrow> Burst (applyDefaults config) = 10)
    \<and> (Period config = 0 \<longrightarrow> Period (applyDefaults config) = 60 * 1000000000)
    \<and> (Algorithm config = [] \<longrightarrow> Algorithm (applyDefaults config) = ''simple'')
    \<and> (Prefix config = [] \<longrightarrow> Prefix (applyDefaults config) = ''fiber_limiter'')
    \<and> (Key config = None \<longrightarrow> Key (applyDefaults config) = Some IP)
    \<and> (Handler config = None \<longrightarrow>
          Handler (applyDefaults config) =
            Some (\<lambda>c. c\<lparr>resp_status := StatusCode (applyDefaults config),
                        resp_body := Message (applyDefaults config)\<rparr>))
    \<and> (StatusCode config = 0 \<longrightarrow> StatusCode (applyDefaults config) = 429)
    \<and> (Message config = [] \<longrightarrow>
          Message (applyDefaults config) = ''Too many requests, please try again later.'')"
proof -
  have "New allow config =
           Inr (gate allow (applyDefaults config)
                  (newLimiter client (Prefix (applyDefaults config)))
                  (newLimit (applyDefaults config)))"
    using assms by (rule New_Some)
  moreover have "Max' config = 0 \<longrightarrow> Max' (applyDefaults config) = 10"
    by (simp add: applyDefaults_fields(2))
  moreover have "Burst config = 0 \<longrightarrow> Burst (applyDefaults config) = 10"
    by (simp add: applyDefaults_fields(3))
  moreover have "Period config = 0 \<longrightarrow> Period (applyDefaults config) = 60 * 1000000000"
    by (simp add: applyDefaults_fields(4) Minute_def Second_def)
  moreover have "Algorithm config = [] \<longrightarrow> Algorithm (applyDefaults config) = ''simple''"
    by (simp add: applyDefaults_fields(7) SimpleAlgorithm_def)
  moreover have "Prefix config = [] \<longrightarrow> Prefix (applyDefaults config) = ''fiber_limiter''"
    by (simp add: applyDefaults_fields(8) DefaultKeyPrefix_def)
  moreover have "Key config = None \<longrightarrow> Key (applyDefaults config) = Some IP"
    by (simp add: applyDefaults_fields(10))
  moreover have "Handler config = None \<longrightarrow>
          Handler (applyDefaults config) =
            Some (\<lambda>c. c\<lparr>resp_status := StatusCode (applyDefaults config),
                        resp_body := Message (applyDefaults config)\<rparr>)"
    by (simp add: applyDefaults_fields(11) default_handler_eq)
  moreover have "StatusCode config = 0 \<longrightarrow> StatusCode (applyDefaults config) = 429"
    by (simp add: applyDefaults_fields(5) StatusTooManyRequests_def)
  moreover have "Message config = [] \<longrightarrow>
          Message (applyDefaults config) = ''Too many requests, please try again later.''"
    by (simp add: applyDefaults_fields(6))
  ultimately show ?thesis by blast
qed

text \<open>\<^verbatim>\<open>Config{Rediser: client}\<close>: every other field is zero and gets its default.\<close>

theorem New_applies_the_defaults_witness:
  "Rediser (zeroConfig\<lparr>Rediser := Some 1\<rparr>) = Some 1
   \<and> Max' (zeroConfig\<lparr>Rediser := Some 1\<rparr>) = 0
   \<and> Burst (zeroConfig\<lparr>Rediser := Some 1\<rparr>) = 0
   \<and> Period (zeroConfig\<lparr>Rediser := Some 1\<rparr>) = 0
   \<and> Algorithm (zeroConfig\<lparr>Rediser := Some 1\<rparr>) = []
   \<and> Prefix (zeroConfig\<lparr>Rediser := Some 1\<rparr>) = []
   \<and> Key (zeroConfig\<lparr>Rediser := Some 1\<rparr>) = None
   \<and> Handler (zeroConfig\<lparr>Rediser := Some 1\<rparr>) = None
   \<and> StatusCode (zeroConfig\<lparr>Rediser := Some 1\<rparr>) = 0
   \<and> Message (zeroConfig\<lparr>Rediser := Some 1\<rparr>) = []
   \<and> Max' (applyDefaults (zeroConfig\<lparr>Rediser := Some 1\<rparr>)) = 10
   \<and> Burst (applyDefaults (zeroConfig\<lparr>Rediser := Some 1\<rparr>)) = 10
   \<and> Period (applyDefaults (zeroConfig\<lparr>Rediser := Some 1\<rparr>)) = 60000000000
   \<and> Algorithm (applyDefaults (zeroConfig\<lparr>Rediser := Some 1\<rparr>)) = ''simple''
   \<and> Prefix (applyDefaults (zeroConfig\<lparr>Rediser := Some 1\<rparr>)) = ''fiber_limiter''
   \<and> Key (applyDefaults (zeroConfig\<lparr>Rediser := Some 1\<rparr>)) = Some IP
   \<and> Handler (applyDefaults (zeroConfig\<lparr>Rediser := Some 1\<rparr>)) =
        Some (\<lambda>c. c\<lparr>resp_status := 429,
                    resp_body := ''Too many requests, please try again later.''\<rparr>)
   \<and> StatusCode (applyDefaults (zeroConfig\<lparr>Rediser := Some 1\<rparr>)) = 429
   \<and> Message (applyDefaults (zeroConfig\<lparr>Rediser := Some 1\<rparr>)) =
        ''Too many requests, please try again later.''
   \<and> New counterAllow (zeroConfig\<lparr>Rediser := Some 1\<rparr>) =
        Inr (gate counterAllow (applyDefaults (zeroConfig\<lparr>Rediser := Some 1\<rparr>))
               \<lparr>rdb = 1, Limiter_Prefix = ''fiber_limiter''\<rparr>
               \<lparr>Limit_Period = 60000000000, Limit_Algorithm = ''simple'',
                Limit_Rate = 10, Limit_Burst = 10\<rparr>)"
proof -
  let ?c = "zeroConfig\<lparr>Rediser := Some 1\<rparr>"
  have z: "Rediser ?c = Some 1" "Max' ?c = 0" "Burst ?c = 0" "Period ?c = 0"
    "Algorithm ?c = []" "Prefix ?c = []" "Key ?c = None" "Handler ?c = None"
    "StatusCode ?c = 0" "Message ?c = []"
    by (simp_all add: zeroConfig_def)
  from New_applies_the_defaults [of ?c 1 counterAllow] z
  show ?thesis
    by (simp add: newLimiter_def newLimit_def)
qed

subsection \<open>C7: a filtered request bypasses the gate\<close>

text \<open>
  C7. When the configured filter holds of a request (lines 126--130), the handler
  calls \<^verbatim>\<open>c.Next()\<close> and nothing else: the context keeps its status, body and
  headers, the store is not touched, and the log gains \<open>CallNext\<close> alone, so
  neither \<^verbatim>\<open>limiter.Allow\<close> nor \<^verbatim>\<open>config.Handler\<close> has been called. The
  answer of the library plays no part: the equation holds for every \<open>allow\<close>.
\<close>

theorem filtered_request_bypasses_the_gate:
  assumes "Rediser config = Some client" and "Filter config = Some f" and "f (ctx w)"
  shows "run (New allow config) w = Inr (w\<lparr>calls := calls w @ [CallNext]\<rparr>)"
proof -
  from assms have "filtered (applyDefaults config) (ctx w)"
    by (simp add: filtered_def applyDefaults_fields)
  with assms(1) show ?thesis
    by (simp add: New_Some gate_filtered)
qed

theorem filtered_request_bypasses_the_gate_witness:
  "Rediser (exampleConfig\<lparr>Filter := Some (\<lambda>c. IP c = ''10.0.0.7'')\<rparr>) = Some 1 \<and>
   IP (ctx (exampleWorld None)) = ''10.0.0.7'' \<and>
   run (New counterAllow (exampleConfig\<lparr>Filter := Some (\<lambda>c. IP c = ''10.0.0.7'')\<rparr>))
       (exampleWorld None) =
     Inr \<lparr>ctx = exampleCtx, store = None, clock = 1585918915500000000, calls = [CallNext]\<rparr>"
  using filtered_request_bypasses_the_gate
    [of "exampleConfig\<lparr>Filter := Some (\<lambda>c. IP c = ''10.0.0.7'')\<rparr>" 1
        "\<lambda>c. IP c = ''10.0.0.7''" "exampleWorld None" counterAllow]
  by (simp add: exampleConfig_def zeroConfig_def exampleWorld_def exampleCtx_def)

subsection \<open>C8: every call of Allow gets the limit that New built\<close>

text \<open>
  C8. \<^verbatim>\<open>New\<close> builds the limit once (lines 115--120), from the configuration
  after the defaults: \<^verbatim>\<open>Rate\<close> is \<^verbatim>\<open>Max\<close>, \<^verbatim>\<open>Burst\<close> is \<^verbatim>\<open>Burst\<close>, and
  \<^verbatim>\<open>Period\<close> and \<^verbatim>\<open>Algorithm\<close> are taken over. The handler gives this value to
  \<^verbatim>\<open>limiter.Allow\<close> (line 132) and has no assignment to it. So, serving any
  sequence of requests, with any contexts, arrival times and answers of the
  library, ends without a panic, makes at most one call of \<^verbatim>\<open>limiter.Allow\<close> for
  each request, and each of these calls is given that same limit.
\<close>

theorem every_Allow_call_gets_the_limit_of_New:
  assumes "Rediser config = Some client"
  shows "\<exists>h. New allow config = Inr h \<and>
           (\<exists>w' n. serve h rs w = Inr w' \<and> n \<le> length rs \<and>
              allowLimits (calls w') =
                allowLimits (calls w) @
                replicate n \<lparr>Limit_Period = Period (applyDefaults config),
                             Limit_Algorithm = Algorithm (applyDefaults config),
                             Limit_Rate = Max' (applyDefaults config),
                             Limit_Burst = Burst (applyDefaults config)\<rparr>)"
proof -
  let ?h = "gate allow (applyDefaults config)
              (newLimiter client (Prefix (applyDefaults config)))
              (newLimit (applyDefaults config))"
  obtain keyf where k: "Key (applyDefaults config) = Some keyf"
    using applyDefaults_Key_Some by blast
  obtain handler where h: "Handler (applyDefaults config) = Some handler"
    using applyDefaults_Handler_Some by blast
  have step: "\<exists>w'. ?h w = Inr w' \<and>
                (allowLimits (calls w') = allowLimits (calls w) \<or>
                 allowLimits (calls w') =
                   allowLimits (calls w) @ [newLimit (applyDefaults config)])" for w
    by (rule gate_step [OF k h])
  have "\<exists>w' n. serve ?h rs w = Inr w' \<and> n \<le> length rs \<and>
          allowLimits (calls w') =
            allowLimits (calls w) @ replicate n (newLimit (applyDefaults config))"
    by (rule serve_limits [of ?h "newLimit (applyDefaults config)", OF step])
  moreover have "New allow config = Inr ?h"
    using assms by (rule New_Some)
  ultimately show ?thesis
    by (auto simp add: newLimit_def)
qed

text \<open>
  Five requests from one address to the gate of examples/main.go, one second apart:
  three are allowed, two are rejected, and all five calls carried the limit of three
  requests in ten seconds.
\<close>

theorem every_Allow_call_gets_the_limit_of_New_witness:
  "Rediser exampleConfig = Some 1 \<and>
   (\<exists>h. New counterAllow exampleConfig = Inr h \<and>
      (\<exists>w'. serve h
               [(exampleCtx, 1585918915500000000), (exampleCtx, 1585918916500000000),
                (exampleCtx, 1585918917500000000), (exampleCtx, 1585918918500000000),
                (exampleCtx, 1585918919500000000)]
               (exampleWorld (Some Map.empty)) = Inr w' \<and>
             store w' = Some [''10.0.0.7'' \<mapsto> 5] \<and>
             allowLimits (calls w') =
               replicate 5 \<lparr>Limit_Period = 10000000000, Limit_Algorithm = ''gcra'',
                            Limit_Rate = 3, Limit_Burst = 3\<rparr>))"
proof -
  let ?rs = "[(exampleCtx, 1585918915500000000), (exampleCtx, 1585918916500000000),
              (exampleCtx, 1585918917500000000), (exampleCtx, 1585918918500000000),
              (exampleCtx, 1585918919500000000)]"
  let ?L = "\<lparr>Limit_Period = 10000000000, Limit_Algorithm = ''gcra'',
             Limit_Rate = 3, Limit_Burst = 3\<rparr>"
  from every_Allow_call_gets_the_limit_of_New
         [OF exampleConfig_Rediser, of counterAllow ?rs "exampleWorld (Some Map.empty)"]
  obtain h w' n where h: "New counterAllow exampleConfig = Inr h"
    and s: "serve h ?rs (exampleWorld (Some Map.empty)) = Inr w'"
    and l: "allowLimits (calls w') = replicate n ?L"
    by (auto simp add: exampleWorld_def exampleConfig_limit [unfolded newLimit_def])
  from h have hg: "h = gate counterAllow (applyDefaults exampleConfig)
                        (newLimiter 1 ''fiber_limiter'') ?L"
    by (simp add: New_Some [OF exampleConfig_Rediser] exampleConfig_simps)
  have st: "store w' = Some [''10.0.0.7'' \<mapsto> 5]"
    and c: "length (allowLimits (calls w')) = 5"
    using s unfolding hg
    by (auto simp add: gate_def Allow_def Next_def Set_def callHandler_def counterAllow_def
        exampleConfig_simps exampleWorld_def exampleCtx_def newLimiter_def
        filtered_applyDefaults)
  from c l have "n = 5" by simp
  with h s st l show ?thesis
    using exampleConfig_Rediser by auto
qed

subsection \<open>C9: a zero field counts as unset\<close>

text \<open>
  C9. Go has no unset field: an omitted field is zero, and lines 90--112 replace
  zero by the default. So, with a client present, the handler that \<^verbatim>\<open>New\<close>
  returns is built from a configuration and a limit in which \<^verbatim>\<open>Max\<close>,
  \<^verbatim>\<open>Burst\<close>, \<^verbatim>\<open>Period\<close> and \<^verbatim>\<open>StatusCode\<close> are the caller's values where
  these are not zero, and 10, 10, one minute and 429 where they are zero; a
  configuration with one of them set to zero gives the very handler that the default
  written out gives. The \<^verbatim>\<open>Rate\<close> of the limit is never zero, and serving any
  sequence of requests with that handler, every call of \<^verbatim>\<open>limiter.Allow\<close> is
  given a limit whose \<^verbatim>\<open>Rate\<close> is not zero: it is 10 when \<^verbatim>\<open>Max\<close> was zero.
\<close>

theorem zero_field_is_read_as_unset:
  assumes "Rediser config = Some client"
  shows "New allow config =
           Inr (gate allow (applyDefaults config)
                  (newLimiter client (Prefix (applyDefaults config)))
                  (newLimit (applyDefaults config)))
    \<and> newLimit (applyDefaults config) =
         \<lparr>Limit_Period = (if Period config = 0 then 60 * 1000000000 else Period config),
          Limit_Algorithm = (if Algorithm config = [] then ''simple'' else Algorithm config),
          Limit_Rate = (if Max' config = 0 then 10 else Max' config),
          Limit_Burst = (if Burst config = 0 then 10 else Burst config)\<rparr>
    \<and> Max' (applyDefaults config) = (if Max' config = 0 then 10 else Max' config)
    \<and> StatusCode (applyDefaults config) =
         (if StatusCode config = 0 then 429 else StatusCode config)
    \<and> Limit_Rate (newLimit (applyDefaults config)) \<noteq> 0
    \<and> New allow (config\<lparr>Max' := 0\<rparr>) = New allow (config\<lparr>Max' := 10\<rparr>)
    \<and> New allow (config\<lparr>Burst := 0\<rparr>) = New allow (config\<lparr>Burst := 10\<rparr>)
    \<and> New allow (config\<lparr>Period := 0\<rparr>) = New allow (config\<lparr>Period := 60 * 1000000000\<rparr>)
    \<and> New allow (config\<lparr>StatusCode := 0\<rparr>) = New allow (config\<lparr>StatusCode := 429\<rparr>)
    \<and> (\<exists>h w' ls. New allow config = Inr h \<and> serve h rs w = Inr w' \<and>
           allowLimits (calls w') = allowLimits (calls w) @ ls \<and>
           (\<forall>l \<in> set ls. Limit_Rate l \<noteq> 0 \<and>
                          Limit_Rate l = (if Max' config = 0 then 10 else Max' config)))"
proof -
  let ?h = "gate allow (applyDefaults config)
              (newLimiter client (Prefix (applyDefaults config)))
              (newLimit (applyDefaults config))"
  have m: "Minute = 60 * 1000000000"
    by (simp add: Minute_def Second_def)
  have new: "New allow config = Inr ?h"
    using assms by (rule New_Some)
  have limit: "newLimit (applyDefaults config) =
         \<lparr>Limit_Period = (if Period config = 0 then 60 * 1000000000 else Period config),
          Limit_Algorithm = (if Algorithm config = [] then ''simple'' else Algorithm config),
          Limit_Rate = (if Max' config = 0 then 10 else Max' config),
          Limit_Burst = (if Burst config = 0 then 10 else Burst config)\<rparr>"
    by (simp add: newLimit_def applyDefaults_fields(2,3,4,7) m SimpleAlgorithm_def)
  have max: "Max' (applyDefaults config) = (if Max' config = 0 then 10 else Max' config)"
    by (simp add: applyDefaults_fields(2))
  have status: "StatusCode (applyDefaults config) =
         (if StatusCode config = 0 then 429 else StatusCode config)"
    by (simp add: applyDefaults_fields(5) StatusTooManyRequests_def)
  have rate: "Limit_Rate (newLimit (applyDefaults config)) \<noteq> 0"
    by (simp add: limit)
  have e1: "New allow (config\<lparr>Max' := 0\<rparr>) = New allow (config\<lparr>Max' := 10\<rparr>)"
    by (rule New_cong) (simp_all add: applyDefaults_zero)
  have e2: "New allow (config\<lparr>Burst := 0\<rparr>) = New allow (config\<lparr>Burst := 10\<rparr>)"
    by (rule New_cong) (simp_all add: applyDefaults_zero)
  have e3: "New allow (config\<lparr>Period := 0\<rparr>) =
            New allow (config\<lparr>Period := 60 * 1000000000\<rparr>)"
    using applyDefaults_zero(3) [of config] by (intro New_cong) (simp_all add: m)
  have e4: "New allow (config\<lparr>StatusCode := 0\<rparr>) = New allow (config\<lparr>StatusCode := 429\<rparr>)"
    by (rule New_cong) (simp_all add: applyDefaults_zero)
  obtain keyf where k: "Key (applyDefaults config) = Some keyf"
    using applyDefaults_Key_Some by blast
  obtain handler where h: "Handler (applyDefaults config) = Some handler"
    using applyDefaults_Handler_Some by blast
  have step: "\<exists>w'. ?h w = Inr w' \<and>
                (allowLimits (calls w') = allowLimits (calls w) \<or>
                 allowLimits (calls w') =
                   allowLimits (calls w) @ [newLimit (applyDefaults config)])" for w
    by (rule gate_step [OF k h])
  have "\<exists>w' n. serve ?h rs w = Inr w' \<and> n \<le> length rs \<and>
          allowLimits (calls w') =
            allowLimits (calls w) @ replicate n (newLimit (applyDefaults config))"
    by (rule serve_limits [of ?h "newLimit (applyDefaults config)", OF step])
  then obtain w' n where s: "serve ?h rs w = Inr w'"
    and l: "allowLimits (calls w') =
              allowLimits (calls w) @ replicate n (newLimit (applyDefaults config))"
    by blast
  have "\<forall>l \<in> set (replicate n (newLimit (applyDefaults config))).
          Limit_Rate l \<noteq> 0 \<and> Limit_Rate l = (if Max' config = 0 then 10 else Max' config)"
    using rate by (simp add: limit)
  with new s l have served:
    "\<exists>h w' ls. New allow config = Inr h \<and> serve h rs w = Inr w' \<and>
           allowLimits (calls w') = allowLimits (calls w) @ ls \<and>
           (\<forall>l \<in> set ls. Limit_Rate l \<noteq> 0 \<and>
                          Limit_Rate l = (if Max' config = 0 then 10 else Max' config))"
    by blast
  from new limit max status rate e1 e2 e3 e4 served show ?thesis
    by blast
qed

text \<open>
  \<^verbatim>\<open>Config{Rediser: client}\<close>, with \<^verbatim>\<open>Max\<close> zero, serving two requests: both calls
  of \<^verbatim>\<open>limiter.Allow\<close> are given the rate 10.
\<close>

theorem zero_field_is_read_as_unset_witness:
  "Rediser clientConfig = Some 1 \<and>
   Max' clientConfig = 0 \<and>
   (\<exists>h w' ls. New counterAllow clientConfig = Inr h \<and>
      serve h [(exampleCtx, 1585918915500000000), (exampleCtx, 1585918916500000000)]
        (exampleWorld (Some Map.empty)) = Inr w' \<and>
      allowLimits (calls w') = allowLimits (calls (exampleWorld (Some Map.empty))) @ ls \<and>
      ls = [\<lparr>Limit_Period = 60000000000, Limit_Algorithm = ''simple'', Limit_Rate = 10,
              Limit_Burst = 10\<rparr>,
            \<lparr>Limit_Period = 60000000000, Limit_Algorithm = ''simple'', Limit_Rate = 10,
              Limit_Burst = 10\<rparr>] \<and>
      (\<forall>l \<in> set ls. Limit_Rate l \<noteq> 0 \<and> Limit_Rate l = 10))"
proof -
  let ?c = clientConfig
  let ?rs = "[(exampleCtx, 1585918915500000000), (exampleCtx, 1585918916500000000)]"
  let ?w = "exampleWorld (Some Map.empty)"
  let ?L = "\<lparr>Limit_Period = 60000000000, Limit_Algorithm = ''simple'', Limit_Rate = 10,
             Limit_Burst = 10\<rparr>"
  have z: "Max' ?c = 0"
    by (simp add: clientConfig_def zeroConfig_def)
  from zero_field_is_read_as_unset [OF bareConfig_Rediser, of counterAllow ?rs ?w]
  obtain h w' ls where h: "New counterAllow ?c = Inr h"
    and s: "serve h ?rs ?w = Inr w'"
    and l: "allowLimits (calls w') = allowLimits (calls ?w) @ ls"
    and r: "\<forall>l \<in> set ls. Limit_Rate l \<noteq> 0 \<and> Limit_Rate l = 10"
    using z by auto
  from h have hg: "h = gate counterAllow (applyDefaults ?c) (newLimiter 1 ''fiber_limiter'') ?L"
    by (simp add: New_Some [OF bareConfig_Rediser] bareConfig_simps)
  have c: "allowLimits (calls w') = [?L, ?L]"
    using s unfolding hg
    by (auto simp add: gate_def Allow_def Next_def Set_def callHandler_def counterAllow_def
        bareConfig_simps exampleWorld_def exampleCtx_def newLimiter_def
        filtered_applyDefaults)
  from c l have "ls = [?L, ?L]"
    by (simp add: exampleWorld_def)
  with h s l r z show ?thesis
    using bareConfig_Rediser by blast
qed

end
